theory Spec2Isabelle
  imports Complex_Main "HOL-Library.Multiset" "HOL-Library.AList" "HOL-Library.Char_ord" "HOL-Library.List_Lexorder"
    "HOL-Library.Product_Lexorder"
begin

section \<open>GRACC-based APEL report: the aggregation and normalization engine\<close>

text \<open>
  A shallow embedding of \<^verbatim>\<open>apel_report.py\<close>. Python integers are \<open>int\<close>.
  Python floats are modelled as \<open>real\<close>: the arithmetic is the exact one, IEEE-754
  rounding, infinities and NaN are outside the model. Exceptions are values of the
  type \<open>error\<close>; a function that may raise returns \<open>error + 'a\<close>.
\<close>

subsection \<open>Python values: errors, truncation, number formatting\<close>

datatype error =
    Exception string
  | ValueError string
  | AttributeError string

text \<open>\<^verbatim>\<open>int(x)\<close> of a float truncates towards zero.\<close>

definition py_int :: "real \<Rightarrow> int" where
  "py_int x = (if 0 \<le> x then \<lfloor>x\<rfloor> else \<lceil>x\<rceil>)"

text \<open>\<^verbatim>\<open>str(n)\<close> of an integer, and the format \<^verbatim>\<open>"%02d" % n\<close>.\<close>

definition digit_char :: "nat \<Rightarrow> char" where
  "digit_char d = ''0123456789'' ! d"

fun str_nat :: "nat \<Rightarrow> string" where
  "str_nat n = (if n < 10 then [digit_char n] else str_nat (n div 10) @ [digit_char (n mod 10)])"

declare str_nat.simps [simp del]

definition str_int :: "int \<Rightarrow> string" where
  "str_int i = (if i < 0 then ''-'' @ str_nat (nat (- i)) else str_nat (nat i))"

definition fmt_02d :: "int \<Rightarrow> string" where
  "fmt_02d i = (let s = str_int i in if length s < 2 then ''0'' @ s else s)"

text \<open>
  \<^verbatim>\<open>statistics.mean\<close>. It raises on an empty list; the only call is guarded by
  \<^verbatim>\<open>len(hep_spec_percentages) > 0\<close>.
\<close>

definition mean :: "real list \<Rightarrow> real" where
  "mean xs = sum_list xs / real (length xs)"

text \<open>
  \<^verbatim>\<open>math.isclose(a, b)\<close> of the Python standard library with its default tolerances
  \<^verbatim>\<open>rel_tol=1e-09\<close> and \<^verbatim>\<open>abs_tol=0.0\<close>, following the library's definition:
  equal values are close, otherwise the difference is compared with the relative
  tolerance scaled by either argument, or with the absolute tolerance.
\<close>

definition rel_tol :: real where
  "rel_tol = 1 / 10 ^ 9"

definition abs_tol :: real where
  "abs_tol = 0"

definition isclose :: "real \<Rightarrow> real \<Rightarrow> bool" where
  "isclose a b =
     (a = b \<or> \<bar>b - a\<bar> \<le> \<bar>rel_tol * b\<bar> \<or> \<bar>b - a\<bar> \<le> \<bar>rel_tol * a\<bar> \<or> \<bar>b - a\<bar> \<le> abs_tol)"

subsection \<open>The HS23 portion of a resource group\<close>

text \<open>
  The JSON document of the Topology service: an object from resource-group names to
  their resources (the value under \<^verbatim>\<open>["Resources"]["Resource"]\<close>); a resource carries
  the dictionary \<^verbatim>\<open>WLCGInformation\<close>, whose values are read with \<^verbatim>\<open>float\<close>. The
  response of the HTTP request is a parameter of the model.
\<close>

record resource =
  WLCGInformation :: "(string \<times> real) list"

type_synonym raw_json = "(string \<times> resource list) list"

record response =
  status_code :: int
  json :: raw_json

type_synonym resource_group_map = "(string \<times> real) list"

fun hep_spec_percentages :: "resource list \<Rightarrow> real list" where
  "hep_spec_percentages [] = []"
| "hep_spec_percentages (r # rs) =
     (case map_of (WLCGInformation r) ''HEPScore23Percentage'' of
        None \<Rightarrow> hep_spec_percentages rs
      | Some p \<Rightarrow> p # hep_spec_percentages rs)"

fun parse_resource_groups :: "raw_json \<Rightarrow> resource_group_map \<Rightarrow> resource_group_map" where
  "parse_resource_groups [] m = m"
| "parse_resource_groups ((resource_group_name, resources) # rest) m =
     parse_resource_groups rest
       (AList.update resource_group_name
          (if length (hep_spec_percentages resources) > 0
           then mean (hep_spec_percentages resources) else 0.0) m)"

text \<open>
  The global \<^verbatim>\<open>resource_group_map\<close> is the state: \<open>None\<close> before the first call.
  The function returns the portion and the new state, or the exception it raises.
\<close>

definition get_hs23_portion ::
  "response \<Rightarrow> resource_group_map option \<Rightarrow> string
     \<Rightarrow> error + (real \<times> resource_group_map option)" where
  "get_hs23_portion resp cache resource_group =
     (case cache of
        None \<Rightarrow>
          if status_code resp \<noteq> 200
          then Inl (Exception (''Error downloading resource group summary from Topology: ''
                      @ str_int (status_code resp)))
          else (let m = parse_resource_groups (json resp) []
                in Inr (case map_of m resource_group of None \<Rightarrow> 0.0 | Some v \<Rightarrow> v, Some m))
      | Some m \<Rightarrow>
          Inr (case map_of m resource_group of None \<Rightarrow> 0.0 | Some v \<Rightarrow> v, Some m))"

subsection \<open>The normalization factor of a leaf bucket\<close>

text \<open>
  A leaf bucket of the query's response: the keys of its \<^verbatim>\<open>NormalFactor\<close> buckets
  and the \<^verbatim>\<open>.value\<close> of each metric.
\<close>

record bucket =
  NormalFactor :: "real list"
  CpuDuration_system :: real
  CpuDuration_user :: real
  CpuDuration :: real
  WallDuration :: real
  NumberOfJobs :: real
  EarliestEndTime :: real
  LatestEndTime :: real

text \<open>The table \<^verbatim>\<open>nf_table\<close>, loaded once from the side file, is a parameter.\<close>

definition norm_factor :: "(string \<rightharpoonup> real) \<Rightarrow> bucket \<Rightarrow> string \<Rightarrow> real" where
  "norm_factor nf_table bkt site' =
     (let nf_max = 200;
          nf_default = 12;
          nf_values = filter (\<lambda>k. k > 0) (NormalFactor bkt);
          nf0 = (if length nf_values = 0 then nf_default
                 else if length nf_values = 1 then nf_values ! 0
                 else 1.0 * sum_list nf_values / real (length nf_values))
      in if nf0 \<ge> nf_max
         then (case nf_table site' of Some v \<Rightarrow> v | None \<Rightarrow> nf_default)
         else nf0)"

subsection \<open>Records and the merge operation\<close>

record RecordKey =
  vo :: string
  site :: string
  cores :: int
  dn :: string

record Record =
  mintime :: int
  maxtime :: int
  walldur :: int
  cpudur :: int
  nf :: real
  njobs :: int

definition record_adder :: "Record \<Rightarrow> Record \<Rightarrow> Record" where
  "record_adder a b =
     \<lparr>mintime = min (mintime a) (mintime b),
      maxtime = max (maxtime a) (maxtime b),
      walldur = walldur a + walldur b,
      cpudur = cpudur a + cpudur b,
      nf = min (nf a) (nf b),
      njobs = njobs a + njobs b\<rparr>"

definition bkt_record :: "(string \<rightharpoonup> real) \<Rightarrow> bucket \<Rightarrow> string \<Rightarrow> Record" where
  "bkt_record nf_table bkt site' =
     \<lparr>mintime = py_int (EarliestEndTime bkt / 1000),
      maxtime = py_int (LatestEndTime bkt / 1000),
      walldur = py_int (WallDuration bkt),
      cpudur = (if CpuDuration_user bkt = 0 \<and> CpuDuration_system bkt = 0
                then py_int (CpuDuration bkt)
                else py_int (CpuDuration_user bkt + CpuDuration_system bkt)),
      nf = norm_factor nf_table bkt site',
      njobs = py_int (NumberOfJobs bkt)\<rparr>"

subsection \<open>The accumulator\<close>

text \<open>
  The values of the \<^verbatim>\<open>autodict\<close> \<^verbatim>\<open>recs\<close>: the empty \<^verbatim>\<open>autodict\<close> that the default
  factory makes for a missing key, or a \<open>Record\<close>. The dictionary keeps its keys in
  insertion order, so it is an association list.
\<close>

datatype accum = Autodict | Rec Record

type_synonym recs = "(RecordKey \<times> accum) list"

text \<open>\<^verbatim>\<open>autodict.__add__\<close> returns the other operand; \<^verbatim>\<open>Record.__add__\<close> is \<open>record_adder\<close>.\<close>

fun accum_add :: "accum \<Rightarrow> Record \<Rightarrow> accum" where
  "accum_add Autodict other = Rec other"
| "accum_add (Rec a) b = Rec (record_adder a b)"

text \<open>\<^verbatim>\<open>recs[rk]\<close>: a missing key is first bound to a new empty \<^verbatim>\<open>autodict\<close>.\<close>

definition autodict_getitem :: "recs \<Rightarrow> RecordKey \<Rightarrow> accum \<times> recs" where
  "autodict_getitem rs rk =
     (case map_of rs rk of
        Some v \<Rightarrow> (v, rs)
      | None \<Rightarrow> (Autodict, AList.update rk Autodict rs))"

text \<open>\<^verbatim>\<open>recs[rk] += rec\<close>.\<close>

definition recs_iadd :: "recs \<Rightarrow> RecordKey \<Rightarrow> Record \<Rightarrow> recs" where
  "recs_iadd rs rk rec =
     (case autodict_getitem rs rk of (v, rs') \<Rightarrow> AList.update rk (accum_add v rec) rs')"

definition site_map :: "string \<rightharpoonup> string" where
  "site_map = [''Crane'' \<mapsto> ''Nebraska'', ''Sandhills'' \<mapsto> ''Nebraska'', ''Tusker'' \<mapsto> ''Nebraska'']"

definition site_vo_map :: "string \<times> string \<rightharpoonup> string" where
  "site_vo_map = [(''MIT_CMS'', ''lhcb'') \<mapsto> ''MIT_LHCb'']"

definition add_record ::
  "(string \<rightharpoonup> real) \<Rightarrow> recs \<Rightarrow> string \<Rightarrow> string \<Rightarrow> int \<Rightarrow> string \<Rightarrow> bucket \<Rightarrow> recs" where
  "add_record nf_table rs vo' site' cores' dn' bkt =
     (let site1 = (case site_map site' of Some s \<Rightarrow> s | None \<Rightarrow> site');
          site2 = (case site_vo_map (site1, vo') of Some s \<Rightarrow> s | None \<Rightarrow> site1);
          rk = \<lparr>vo = vo', site = site2, cores = cores', dn = dn'\<rparr>;
          rec = bkt_record nf_table bkt site2
      in recs_iadd rs rk rec)"

subsection \<open>The report emitter\<close>

text \<open>
  A written line is the list of the arguments of one \<^verbatim>\<open>print\<close> call, which writes
  their \<^verbatim>\<open>str\<close> separated by blanks.
\<close>

datatype pyval = PStr string | PInt int

type_synonym line = "pyval list"

definition fixed_header :: string where
  "fixed_header = ''APEL-normalised-summary-message: v0.4''"

definition fixed_separator :: string where
  "fixed_separator = ''%%''"

definition fixed_infrastructure :: string where
  "fixed_infrastructure = ''grid''"

definition fixed_nodecount :: int where
  "fixed_nodecount = 1"

definition print_header :: "line list" where
  "print_header = [[PStr fixed_header]]"

text \<open>The seventeen \<^verbatim>\<open>write\<close> calls of one pass of the loop over the submit hosts.\<close>

definition write_lines ::
  "int \<Rightarrow> int \<Rightarrow> RecordKey \<Rightarrow> Record \<Rightarrow> string \<Rightarrow> string \<Rightarrow> real \<Rightarrow> string \<Rightarrow> line list" where
  "write_lines year month rk rec dn' submit_host_name portion metric_name =
     [[PStr ''Site:'', PStr (site rk)],
      [PStr ''SubmitHost:'', PStr submit_host_name],
      [PStr ''VO:'', PStr (vo rk)],
      [PStr ''EarliestEndTime:'', PInt (mintime rec)],
      [PStr ''LatestEndTime:'', PInt (maxtime rec + 60 * 60 * 24 - 1)],
      [PStr ''Month:'', PStr (fmt_02d month)],
      [PStr ''Year:'', PInt year],
      [PStr ''Infrastructure:'', PStr fixed_infrastructure],
      [PStr ''GlobalUserName:'', PStr dn'],
      [PStr ''Processors:'', PInt (cores rk)],
      [PStr ''NodeCount:'', PInt fixed_nodecount],
      [PStr ''WallDuration:'', PInt (py_int (real_of_int (walldur rec) * portion))],
      [PStr ''CpuDuration:'', PInt (py_int (real_of_int (cpudur rec) * portion))],
      [PStr ''NormalisedWallDuration:'',
         PStr (''{'' @ metric_name @ '': ''
               @ str_int (py_int (real_of_int (walldur rec) * nf rec * portion)) @ ''}'')],
      [PStr ''NormalisedCpuDuration:'',
         PStr (''{'' @ metric_name @ '': ''
               @ str_int (py_int (real_of_int (cpudur rec) * nf rec * portion)) @ ''}'')],
      [PStr ''NumberOfJobs:'', PInt (py_int (real_of_int (njobs rec) * portion))],
      [PStr fixed_separator]]"

text \<open>The loop \<^verbatim>\<open>for submit_host in range(len(submit_hosts))\<close>, over the indices.\<close>

fun write_hosts ::
  "int \<Rightarrow> int \<Rightarrow> RecordKey \<Rightarrow> Record \<Rightarrow> string \<Rightarrow> string list \<Rightarrow> real \<Rightarrow> nat list
     \<Rightarrow> error + line list" where
  "write_hosts year month rk rec dn' submit_hosts hs23_portion [] = Inr []"
| "write_hosts year month rk rec dn' submit_hosts hs23_portion (submit_host # rest) =
     (case (if submit_host = 0 then Inr (1.0 - hs23_portion, ''hepspec'')
            else if submit_host = 1 then Inr (hs23_portion, ''HEPscore23'')
            else Inl (ValueError (''Invalid submit_host: '' @ str_int (int submit_host)))) of
        Inl e \<Rightarrow> Inl e
      | Inr (portion, metric_name) \<Rightarrow>
          (case write_hosts year month rk rec dn' submit_hosts hs23_portion rest of
             Inl e \<Rightarrow> Inl e
           | Inr ls \<Rightarrow>
               Inr (write_lines year month rk rec dn' (submit_hosts ! submit_host)
                      portion metric_name @ ls)))"

definition print_rk_recr ::
  "response \<Rightarrow> resource_group_map option \<Rightarrow> int \<Rightarrow> int \<Rightarrow> RecordKey \<Rightarrow> Record
     \<Rightarrow> error + (line list \<times> resource_group_map option)" where
  "print_rk_recr resp cache year month rk rec =
     (let dn' = (if dn rk = ''N/A'' then ''generic '' @ vo rk @ '' user'' else dn rk)
      in case get_hs23_portion resp cache (site rk) of
           Inl e \<Rightarrow> Inl e
         | Inr (hs23_portion, cache') \<Rightarrow>
             (let submit_hosts =
                    [''hepspec-hosts'']
                    @ (if \<not> isclose hs23_portion 0.0 then [''hepscore-hosts''] else [])
              in case write_hosts year month rk rec dn' submit_hosts hs23_portion
                        [0 ..< length submit_hosts] of
                   Inl e \<Rightarrow> Inl e
                 | Inr ls \<Rightarrow> Inr (ls, cache')))"

subsection \<open>The walk over the buckets and the main program\<close>

text \<open>
  The nested buckets of the response: processors, then VO, then DN, then site; a site
  bucket carries its own metrics and its \<^verbatim>\<open>SiteName\<close> buckets.
\<close>

type_synonym sitename_bkt = "string \<times> bucket"
type_synonym site_bkt = "string \<times> bucket \<times> sitename_bkt list"
type_synonym dn_bkt = "string \<times> site_bkt list"
type_synonym vo_bkt = "string \<times> dn_bkt list"
type_synonym cores_bkt = "int \<times> vo_bkt list"

definition MISSING :: string where
  "MISSING = ''__MISSING__''"

definition sorted_buckets :: "('k::linorder \<times> 'b) list \<Rightarrow> ('k \<times> 'b) list" where
  "sorted_buckets buckets = sort_key fst buckets"

definition walk_site ::
  "(string \<rightharpoonup> real) \<Rightarrow> int \<Rightarrow> string \<Rightarrow> string \<Rightarrow> site_bkt \<Rightarrow> recs \<Rightarrow> recs" where
  "walk_site nf_table cores' vo' dn' site_bkt rs =
     (case site_bkt of (site', bkt, sitenames) \<Rightarrow>
        if site' = MISSING
        then fold (\<lambda>(sitename, sitename_bkt) r.
                     add_record nf_table r vo' sitename cores' dn' sitename_bkt)
               (sorted_buckets sitenames) rs
        else add_record nf_table rs vo' site' cores' dn' bkt)"

definition walk :: "(string \<rightharpoonup> real) \<Rightarrow> cores_bkt list \<Rightarrow> recs \<Rightarrow> recs" where
  "walk nf_table aggs rs =
     fold (\<lambda>(cores', vos).
        fold (\<lambda>(vo', dns).
          fold (\<lambda>(dn', sites).
            fold (walk_site nf_table cores' vo' dn') (sorted_buckets sites))
            (sorted_buckets dns))
          (sorted_buckets vos))
       (sorted_buckets aggs) rs"

text \<open>
  The loop \<^verbatim>\<open>for rk,rec in sorted(recs.items())\<close> around \<open>print_rk_recr\<close>, which
  fails at \<^verbatim>\<open>rec.mintime\<close> for a value that is not a \<open>Record\<close>.
\<close>

fun print_all ::
  "response \<Rightarrow> resource_group_map option \<Rightarrow> int \<Rightarrow> int \<Rightarrow> (RecordKey \<times> accum) list
     \<Rightarrow> error + line list" where
  "print_all resp cache year month [] = Inr []"
| "print_all resp cache year month ((rk, Autodict) # rest) =
     (case get_hs23_portion resp cache (site rk) of
        Inl e \<Rightarrow> Inl e
      | Inr r \<Rightarrow> Inl (AttributeError ''mintime''))"
| "print_all resp cache year month ((rk, Rec rec) # rest) =
     (case print_rk_recr resp cache year month rk rec of
        Inl e \<Rightarrow> Inl e
      | Inr (ls, cache') \<Rightarrow>
          (case print_all resp cache' year month rest of
             Inl e \<Rightarrow> Inl e
           | Inr ls' \<Rightarrow> Inr (ls @ ls')))"

text \<open>\<^verbatim>\<open>auto_year_month\<close>, from today's year, month and day.\<close>

definition auto_year_month :: "int \<times> int \<times> int \<Rightarrow> int \<times> int" where
  "auto_year_month today =
     (case today of (y, m, d) \<Rightarrow>
        if d \<le> 3 then (if m = 1 then (y - 1, 12) else (y, m - 1)) else (y, m))"

text \<open>
  What a run of \<^verbatim>\<open>main\<close> leaves: \<open>Exit\<close> with a status after the lines written to
  the error stream, an uncaught exception, or the report file with its name and lines
  and the lines written to standard output. Of a run that an exception ends, the model
  keeps the exception and not the part of the report written before it.
\<close>

datatype outcome =
    Exit int "string list"
  | Uncaught error
  | Wrote string "line list" "string list"

text \<open>
  \<^verbatim>\<open>year,month = map(int, sys.argv[1:])\<close>: the builtin \<^verbatim>\<open>int\<close> on a string is the
  parameter \<open>parse_int\<close> (\<open>None\<close> where it raises). Every exception of the statement
  reaches the same handler.
\<close>

definition unpack_year_month :: "(string \<Rightarrow> int option) \<Rightarrow> string list \<Rightarrow> (int \<times> int) option" where
  "unpack_year_month parse_int args =
     (case args of
        [a, b] \<Rightarrow>
          (case parse_int a of
             None \<Rightarrow> None
           | Some y \<Rightarrow> (case parse_int b of None \<Rightarrow> None | Some m \<Rightarrow> Some (y, m)))
      | _ \<Rightarrow> None)"

text \<open>
  \<^verbatim>\<open>main\<close>. The parameters are the world outside: \<open>parse_int\<close>, today's date, the
  base name of the script, the query (a response or an exception for a year and a
  month), the normalization table, the Topology response, and \<^verbatim>\<open>sys.argv[1:]\<close>.
\<close>

definition main ::
  "(string \<Rightarrow> int option) \<Rightarrow> int \<times> int \<times> int \<Rightarrow> string
     \<Rightarrow> (int \<Rightarrow> int \<Rightarrow> error + cores_bkt list) \<Rightarrow> (string \<rightharpoonup> real) \<Rightarrow> response
     \<Rightarrow> string list \<Rightarrow> outcome" where
  "main parse_int today script gracc_query_apel nf_table resp args =
     (case (if length args = 0 then Some (auto_year_month today)
            else unpack_year_month parse_int args) of
        None \<Rightarrow> Exit 0 [''usage: '' @ script @ '' [YEAR MONTH]'']
      | Some (year, month) \<Rightarrow>
          (let outfile_name = fmt_02d month @ ''_'' @ str_int year @ ''.apel''
           in case gracc_query_apel year month of
                Inl e \<Rightarrow> Uncaught e
              | Inr aggs \<Rightarrow>
                  (case print_all resp None year month
                          (sort_key (\<lambda>(rk, v). (vo rk, site rk, cores rk, dn rk))
                             (walk nf_table aggs [])) of
                     Inl e \<Rightarrow> Uncaught e
                   | Inr ls \<Rightarrow> Wrote outfile_name (print_header @ ls) [''wrote: '' @ outfile_name])))"

subsection \<open>Predicates and reference definitions of the specification\<close>

text \<open>The invariant the data model states for a \<open>Record\<close>.\<close>

definition record_invariant :: "Record \<Rightarrow> bool" where
  "record_invariant r =
     (mintime r \<le> maxtime r \<and> 0 \<le> walldur r \<and> 0 \<le> cpudur r \<and> 0 \<le> njobs r)"


text \<open>
  An instance of the parameter \<open>parse_int\<close> for concrete runs: the non-empty strings of
  ASCII digits, on which it agrees with Python's \<^verbatim>\<open>int\<close>.
\<close>

definition parse_decimal :: "string \<Rightarrow> int option" where
  "parse_decimal s =
     (if s \<noteq> [] \<and> list_all (\<lambda>c. CHR ''0'' \<le> c \<and> c \<le> CHR ''9'') s
      then Some (foldl (\<lambda>a c. 10 * a + (int (of_char c) - 48)) 0 s) else None)"

text \<open>Concrete inputs used to run the model.\<close>

definition ex_bucket :: bucket where
  "ex_bucket =
     \<lparr>NormalFactor = [10], CpuDuration_system = 0, CpuDuration_user = 0,
      CpuDuration = 3600, WallDuration = 3600, NumberOfJobs = 1,
      EarliestEndTime = 1700000000000, LatestEndTime = 1700000000000\<rparr>"

definition ex_key :: RecordKey where
  "ex_key = \<lparr>vo = ''cms'', site = ''Nebraska'', cores = 8, dn = ''N/A''\<rparr>"

definition ex_record :: Record where
  "ex_record =
     \<lparr>mintime = 1700000000, maxtime = 1700000000, walldur = 3600, cpudur = 3600,
      nf = 10, njobs = 1\<rparr>"

definition ex_record_a :: Record where
  "ex_record_a =
     \<lparr>mintime = 10, maxtime = 20, walldur = 100, cpudur = 200, nf = 8, njobs = 1\<rparr>"

definition ex_record_b :: Record where
  "ex_record_b =
     \<lparr>mintime = 5, maxtime = 15, walldur = 50, cpudur = 100, nf = 16, njobs = 1\<rparr>"

definition ex_response :: "real \<Rightarrow> response" where
  "ex_response percentage =
     \<lparr>status_code = 200,
      json = [(''Nebraska'', [\<lparr>WLCGInformation = [(''HEPScore23Percentage'', percentage)]\<rparr>,
                             \<lparr>WLCGInformation = []\<rparr>])]\<rparr>"

section \<open>Auxiliary facts\<close>

subsection \<open>Truncation of non-negative products\<close>




subsection \<open>The sign of the normalization factor\<close>

text \<open>
  A resolved factor is non-negative when the table's entry for the site is, and the
  merge keeps that.
\<close>

lemma norm_factor_nonneg:
  assumes "\<And>v. nf_table s = Some v \<Longrightarrow> 0 \<le> v"
  shows "0 \<le> norm_factor nf_table bkt s"
proof -
  let ?vs = "filter (\<lambda>k. 0 < k) (NormalFactor bkt)"
  have one: "0 \<le> ?vs ! 0" if "length ?vs = 1"
  proof -
    have "?vs ! 0 \<in> set ?vs"
      using that by (simp del: set_filter)
    then show ?thesis by simp
  qed
  have "0 \<le> sum_list ?vs"
    by (rule sum_list_nonneg) auto
  then have many: "0 \<le> sum_list ?vs / real (length ?vs)"
    by simp
  show ?thesis
    using assms one many
    by (auto simp: norm_factor_def Let_def split: option.splits)
qed

lemma record_adder_nf_nonneg:
  "0 \<le> nf a \<Longrightarrow> 0 \<le> nf b \<Longrightarrow> 0 \<le> nf (record_adder a b)"
  by (simp add: record_adder_def)

subsection \<open>The tolerance test against zero\<close>

lemma isclose_0_iff: "isclose p 0 \<longleftrightarrow> p = 0"
proof
  assume "isclose p 0"
  then have "p = 0 \<or> \<bar>p\<bar> \<le> \<bar>p\<bar> / 10 ^ 9"
    by (auto simp: isclose_def rel_tol_def abs_tol_def abs_mult)
  then show "p = 0"
  proof
    assume "\<bar>p\<bar> \<le> \<bar>p\<bar> / 10 ^ 9"
    then have "\<bar>p\<bar> * 10 ^ 9 \<le> \<bar>p\<bar>"
      by (simp add: field_simps)
    then show "p = 0" by simp
  qed simp
qed (simp add: isclose_def)

subsection \<open>Rounding\<close>

text \<open>
  The model computes with exact reals, the program with binary64 floats. The two facts
  of this subsection are about an arbitrary rounding \<open>fl\<close> of the results with the
  relative error of round-to-nearest on the normal range of binary64: the rounded
  product of the tolerance test never reaches a portion other than 0, and the two
  truncated rounded products of a split sum to at most a total of up to \<open>2 ^ 51\<close>.
\<close>

lemma isclose_rounded_product:
  fixes fl :: "real \<Rightarrow> real"
  assumes "\<And>x. \<bar>fl x\<bar> \<le> 2 * \<bar>x\<bar>" and "0 \<le> r" and "r < 1 / 2"
  shows "\<bar>p\<bar> \<le> \<bar>fl (r * p)\<bar> \<longleftrightarrow> p = 0"
proof
  assume "\<bar>p\<bar> \<le> \<bar>fl (r * p)\<bar>"
  also have "\<dots> \<le> 2 * \<bar>r * p\<bar>"
    by (rule assms(1))
  also have "\<dots> = (2 * r) * \<bar>p\<bar>"
    using assms(2) by (simp add: abs_mult)
  finally have "(1 - 2 * r) * \<bar>p\<bar> \<le> 0"
    by (simp add: algebra_simps)
  moreover have "0 < 1 - 2 * r"
    using assms(3) by simp
  ultimately have "\<bar>p\<bar> \<le> 0"
    by (simp add: mult_le_0_iff)
  then show "p = 0" by simp
next
  assume "p = 0"
  then show "\<bar>p\<bar> \<le> \<bar>fl (r * p)\<bar>" by simp
qed

lemma split_sum_rounded:
  fixes fl :: "real \<Rightarrow> real" and w :: int
  assumes fl: "\<And>x. 0 \<le> x \<Longrightarrow> 0 \<le> fl x \<and> fl x \<le> x * (1 + 1 / 2 ^ 53)"
    and w: "0 \<le> w" "w \<le> 2 ^ 51"
    and p: "0 < p" "p < 1"
  shows "py_int (fl (real_of_int w * fl (1 - p))) + py_int (fl (real_of_int w * p)) \<le> w"
proof -
  let ?u = "1 / 2 ^ 53 :: real"
  let ?W = "real_of_int w"
  have W0: "0 \<le> ?W"
    using w(1) by simp
  have a0: "0 \<le> fl (1 - p)" and a1: "fl (1 - p) \<le> (1 - p) * (1 + ?u)"
    using fl [of "1 - p"] p by simp_all
  have x0: "0 \<le> ?W * fl (1 - p)"
    using W0 a0 by simp
  have y0: "0 \<le> ?W * p"
    using W0 p by simp
  have fx: "0 \<le> fl (?W * fl (1 - p))" "fl (?W * fl (1 - p)) \<le> ?W * fl (1 - p) * (1 + ?u)"
    using fl [OF x0] by simp_all
  have fy: "0 \<le> fl (?W * p)" "fl (?W * p) \<le> ?W * p * (1 + ?u)"
    using fl [OF y0] by simp_all
  have "?W * fl (1 - p) \<le> ?W * ((1 - p) * (1 + ?u))"
    using a1 W0 by (rule mult_left_mono)
  then have "?W * fl (1 - p) * (1 + ?u) \<le> ?W * ((1 - p) * (1 + ?u)) * (1 + ?u)"
    by (rule mult_right_mono) simp
  with fx(2) have b1: "fl (?W * fl (1 - p)) \<le> ?W * (1 - p) * (1 + ?u) * (1 + ?u)"
    by (simp add: mult.assoc)
  have "0 \<le> ?W * p * (1 + ?u)"
    using y0 by simp
  then have "?W * p * (1 + ?u) * 1 \<le> ?W * p * (1 + ?u) * (1 + ?u)"
    by (rule mult_left_mono [rotated]) simp
  then have "?W * p * (1 + ?u) \<le> ?W * p * (1 + ?u) * (1 + ?u)"
    by simp
  with fy(2) have b2: "fl (?W * p) \<le> ?W * p * (1 + ?u) * (1 + ?u)"
    by linarith
  have "fl (?W * fl (1 - p)) + fl (?W * p) \<le> ?W * (1 + ?u) * (1 + ?u)"
    using b1 b2 by (simp add: algebra_simps)
  also have "\<dots> = ?W + ?W * (2 * ?u + ?u * ?u)"
    by (simp add: algebra_simps)
  also have "\<dots> < ?W + 1"
  proof -
    have "?W \<le> 2 ^ 51"
      using w(2) by (metis of_int_le_iff of_int_numeral of_int_power)
    then have "?W * (2 * ?u + ?u * ?u) \<le> 2 ^ 51 * (2 * ?u + ?u * ?u)"
      by (rule mult_right_mono) simp
    also have "\<dots> < 1" by simp
    finally show ?thesis by simp
  qed
  finally have lt: "fl (?W * fl (1 - p)) + fl (?W * p) < ?W + 1" .
  have "real_of_int (py_int (fl (?W * fl (1 - p)))) \<le> fl (?W * fl (1 - p))"
    using fx(1) by (simp add: py_int_def)
  moreover have "real_of_int (py_int (fl (?W * p))) \<le> fl (?W * p)"
    using fy(1) by (simp add: py_int_def)
  ultimately have "real_of_int (py_int (fl (?W * fl (1 - p))) + py_int (fl (?W * p))) < ?W + 1"
    using lt by simp
  then show ?thesis by linarith
qed

subsection \<open>The map of portions\<close>

lemma mean_unit_interval:
  assumes "\<forall>x \<in> set xs. 0 \<le> x \<and> x \<le> 1" and "xs \<noteq> []"
  shows "0 \<le> mean xs \<and> mean xs \<le> 1"
proof -
  have "0 \<le> sum_list xs"
    using assms(1) by (simp add: sum_list_nonneg)
  moreover have "sum_list xs \<le> real (length xs)"
    using assms(1) by (induction xs) auto
  moreover have "0 < real (length xs)"
    using assms(2) by simp
  ultimately show ?thesis by (simp add: mean_def)
qed

lemma map_of_parse_resource_groups:
  "map_of (parse_resource_groups js m) g =
     (case map_of (rev js) g of
        Some rs \<Rightarrow>
          Some (if hep_spec_percentages rs = [] then 0 else mean (hep_spec_percentages rs))
      | None \<Rightarrow> map_of m g)"
proof (induction js arbitrary: m)
  case Nil
  then show ?case by simp
next
  case (Cons a js)
  obtain n rs where a: "a = (n, rs)" by (cases a)
  show ?case
    by (simp add: a Cons.IH AList.update_conv' map_add_def split: option.splits)
qed

subsection \<open>The emitter\<close>

lemma upt_0_2: "[0 ..< 2] = [0, Suc 0]"
  by (simp add: upt_rec)

lemma print_rk_recr_lines:
  assumes "get_hs23_portion resp cache (site rk) = Inr (p, cache')"
  shows "print_rk_recr resp cache year month rk rec =
     Inr (if p = 0
          then write_lines year month rk rec
                 (if dn rk = ''N/A'' then ''generic '' @ vo rk @ '' user'' else dn rk)
                 ''hepspec-hosts'' 1 ''hepspec''
          else write_lines year month rk rec
                 (if dn rk = ''N/A'' then ''generic '' @ vo rk @ '' user'' else dn rk)
                 ''hepspec-hosts'' (1 - p) ''hepspec''
               @ write_lines year month rk rec
                 (if dn rk = ''N/A'' then ''generic '' @ vo rk @ '' user'' else dn rk)
                 ''hepscore-hosts'' p ''HEPscore23'', cache')"
  using assms by (simp add: print_rk_recr_def isclose_0_iff Let_def upt_0_2)

lemma print_rk_recr_InrD:
  assumes "print_rk_recr resp cache year month rk rec = Inr (ls, cache')"
  shows "\<exists>p. get_hs23_portion resp cache (site rk) = Inr (p, cache')"
  using assms by (auto simp: print_rk_recr_def Let_def split: sum.splits prod.splits)

lemma filter_latest_write_lines:
  "filter (\<lambda>l. hd l = PStr ''LatestEndTime:'') (write_lines year month rk rec d h portion mn)
     = [[PStr ''LatestEndTime:'', PInt (maxtime rec + 86399)]]"
  by (simp add: write_lines_def fixed_separator_def)

lemma filter_separator_write_lines:
  "filter (\<lambda>l. l = [PStr fixed_separator]) (write_lines year month rk rec d h portion mn)
     = [[PStr fixed_separator]]"
  by (simp add: write_lines_def)

lemma length_write_lines: "length (write_lines year month rk rec d h portion mn) = 17"
  by (simp add: write_lines_def)

subsection \<open>The merge and the accumulator\<close>

lemma merge_commute: "record_adder a b = record_adder b a"
  by (simp add: record_adder_def min.commute max.commute add.commute)

lemma merge_assoc:
  "record_adder (record_adder a b) c = record_adder a (record_adder b c)"
  by (simp add: record_adder_def min.assoc max.assoc add.assoc)

lemma accum_add_swap: "accum_add (accum_add v x) y = accum_add (accum_add v y) x"
proof (cases v)
  case Autodict
  then show ?thesis by (simp add: merge_commute)
next
  case (Rec a)
  have "record_adder (record_adder a x) y = record_adder a (record_adder x y)"
    by (rule merge_assoc)
  also have "\<dots> = record_adder a (record_adder y x)"
    by (simp add: merge_commute [of x y])
  also have "\<dots> = record_adder (record_adder a y) x"
    by (rule merge_assoc [symmetric])
  finally show ?thesis by (simp add: Rec)
qed

lemma recs_iadd_update:
  "recs_iadd rs rk r =
     AList.update rk (accum_add (case map_of rs rk of None \<Rightarrow> Autodict | Some v \<Rightarrow> v) r) rs"
  by (simp add: recs_iadd_def autodict_getitem_def split: option.splits)

lemma recs_iadd_swap:
  "recs_iadd (recs_iadd rs rk x) rk y = recs_iadd (recs_iadd rs rk y) rk x"
  by (simp add: recs_iadd_update AList.update_conv' accum_add_swap)

text \<open>
  The accumulator read as a finite map: one addition is one update of the map, and two
  additions commute.
\<close>

lemma map_of_recs_fold:
  "map_of (fold (\<lambda>(k, r) rs. recs_iadd rs k r) ls rs)
     = fold (\<lambda>(k, r) m. m(k \<mapsto> accum_add (case m k of None \<Rightarrow> Autodict | Some v \<Rightarrow> v) r))
         ls (map_of rs)"
proof (induction ls arbitrary: rs)
  case Nil
  then show ?case by simp
next
  case (Cons a ls)
  obtain k r where a: "a = (k, r)" by (cases a)
  have step: "map_of (recs_iadd rs k r)
      = (map_of rs)(k \<mapsto> accum_add (case map_of rs k of None \<Rightarrow> Autodict | Some v \<Rightarrow> v) r)"
    by (simp add: recs_iadd_update AList.update_conv')
  show ?case
    by (simp add: a Cons.IH step)
qed

lemma map_step_commute:
  "(\<lambda>m. m(k \<mapsto> accum_add (case m k of None \<Rightarrow> Autodict | Some v \<Rightarrow> v) r))
     \<circ> (\<lambda>m. m(k' \<mapsto> accum_add (case m k' of None \<Rightarrow> Autodict | Some v \<Rightarrow> v) r'))
   = (\<lambda>m. m(k' \<mapsto> accum_add (case m k' of None \<Rightarrow> Autodict | Some v \<Rightarrow> v) r'))
     \<circ> (\<lambda>m. m(k \<mapsto> accum_add (case m k of None \<Rightarrow> Autodict | Some v \<Rightarrow> v) r))"
proof (cases "k = k'")
  case True
  then show ?thesis
    by (simp add: fun_eq_iff accum_add_swap)
next
  case False
  then show ?thesis
    by (auto simp: fun_eq_iff)
qed

lemma recs_fold_permute:
  assumes "mset ls = mset ls'"
  shows "map_of (fold (\<lambda>(k, r) rs. recs_iadd rs k r) ls rs)
           = map_of (fold (\<lambda>(k, r) rs. recs_iadd rs k r) ls' rs)"
proof -
  have "fold (\<lambda>(k, r) m. m(k \<mapsto> accum_add (case m k of None \<Rightarrow> Autodict | Some v \<Rightarrow> v) r)) ls
      = fold (\<lambda>(k, r) m. m(k \<mapsto> accum_add (case m k of None \<Rightarrow> Autodict | Some v \<Rightarrow> v) r)) ls'"
  proof (rule fold_multiset_equiv [OF _ assms])
    fix x y :: "RecordKey \<times> Record"
    obtain k r where x: "x = (k, r)" by (cases x)
    obtain k' r' where y: "y = (k', r')" by (cases y)
    show "(case x of (k, r) \<Rightarrow> \<lambda>m. m(k \<mapsto> accum_add (case m k of None \<Rightarrow> Autodict | Some v \<Rightarrow> v) r))
        \<circ> (case y of (k, r) \<Rightarrow> \<lambda>m. m(k \<mapsto> accum_add (case m k of None \<Rightarrow> Autodict | Some v \<Rightarrow> v) r))
      = (case y of (k, r) \<Rightarrow> \<lambda>m. m(k \<mapsto> accum_add (case m k of None \<Rightarrow> Autodict | Some v \<Rightarrow> v) r))
        \<circ> (case x of (k, r) \<Rightarrow> \<lambda>m. m(k \<mapsto> accum_add (case m k of None \<Rightarrow> Autodict | Some v \<Rightarrow> v) r))"
      unfolding x y prod.case by (rule map_step_commute)
  qed
  then show ?thesis
    by (simp add: map_of_recs_fold)
qed

section \<open>The record merge\<close>

text \<open>
  C3. The record merge \<open>record_adder\<close> is associative and commutative. It takes the
  minimum of the earliest end times, the maximum of the latest end times, the sums of
  the wall duration, the CPU duration and the job count, and the minimum of the two
  normalization factors. Hence adding the leaves that share a key to the accumulator in
  any order gives the same accumulator, and adding the leaves of all keys in any order
  gives the same record for every key.
\<close>

theorem record_adder_assoc_commute:
  "record_adder (record_adder a b) c = record_adder a (record_adder b c)
   \<and> record_adder a b = record_adder b a
   \<and> mintime (record_adder a b) = min (mintime a) (mintime b)
   \<and> maxtime (record_adder a b) = max (maxtime a) (maxtime b)
   \<and> walldur (record_adder a b) = walldur a + walldur b
   \<and> cpudur (record_adder a b) = cpudur a + cpudur b
   \<and> njobs (record_adder a b) = njobs a + njobs b
   \<and> nf (record_adder a b) = min (nf a) (nf b)
   \<and> (mset xs = mset ys \<longrightarrow>
        fold (\<lambda>r rs. recs_iadd rs rk r) xs rs = fold (\<lambda>r rs. recs_iadd rs rk r) ys rs)
   \<and> (mset ls = mset ls' \<longrightarrow>
        map_of (fold (\<lambda>(k, r) rs. recs_iadd rs k r) ls rs)
          = map_of (fold (\<lambda>(k, r) rs. recs_iadd rs k r) ls' rs))"
proof -
  have all_keys: "map_of (fold (\<lambda>(k, r) rs. recs_iadd rs k r) ls rs)
          = map_of (fold (\<lambda>(k, r) rs. recs_iadd rs k r) ls' rs)"
    if "mset ls = mset ls'"
    using recs_fold_permute [OF that] .
  have perm: "fold (\<lambda>r rs. recs_iadd rs rk r) xs rs = fold (\<lambda>r rs. recs_iadd rs rk r) ys rs"
    if m: "mset xs = mset ys"
  proof -
    have "fold (\<lambda>r rs. recs_iadd rs rk r) xs = fold (\<lambda>r rs. recs_iadd rs rk r) ys"
      by (rule fold_multiset_equiv) (auto simp: fun_eq_iff recs_iadd_swap m)
    then show ?thesis by simp
  qed
  have fields: "mintime (record_adder a b) = min (mintime a) (mintime b)
      \<and> maxtime (record_adder a b) = max (maxtime a) (maxtime b)
      \<and> walldur (record_adder a b) = walldur a + walldur b
      \<and> cpudur (record_adder a b) = cpudur a + cpudur b
      \<and> njobs (record_adder a b) = njobs a + njobs b
      \<and> nf (record_adder a b) = min (nf a) (nf b)"
    by (simp add: record_adder_def)
  show ?thesis
    using perm all_keys fields merge_assoc [of a b c] merge_commute [of a b]
    by blast
qed

text \<open>
  Two leaves of one key with the factors 8 and 16 and the durations (100, 200, 1) and
  (50, 100, 1), added in both orders, and the same two leaves around a leaf of another
  key.
\<close>

theorem record_adder_assoc_commute_witness:
  "mset [ex_record_a, ex_record_b] = mset [ex_record_b, ex_record_a]
   \<and> fold (\<lambda>r rs. recs_iadd rs ex_key r) [ex_record_a, ex_record_b] []
     = fold (\<lambda>r rs. recs_iadd rs ex_key r) [ex_record_b, ex_record_a] []
   \<and> fold (\<lambda>r rs. recs_iadd rs ex_key r) [ex_record_b, ex_record_a] []
     = [(ex_key, Rec \<lparr>mintime = 5, maxtime = 20, walldur = 150, cpudur = 300, nf = 8, njobs = 2\<rparr>)]
   \<and> mset [(ex_key, ex_record_a), (ex_key\<lparr>site := ''MIT_LHCb''\<rparr>, ex_record), (ex_key, ex_record_b)]
     = mset [(ex_key, ex_record_b), (ex_key, ex_record_a), (ex_key\<lparr>site := ''MIT_LHCb''\<rparr>, ex_record)]
   \<and> map_of (fold (\<lambda>(k, r) rs. recs_iadd rs k r)
        [(ex_key, ex_record_a), (ex_key\<lparr>site := ''MIT_LHCb''\<rparr>, ex_record), (ex_key, ex_record_b)] [])
     = map_of (fold (\<lambda>(k, r) rs. recs_iadd rs k r)
        [(ex_key, ex_record_b), (ex_key, ex_record_a), (ex_key\<lparr>site := ''MIT_LHCb''\<rparr>, ex_record)] [])
   \<and> fold (\<lambda>(k, r) rs. recs_iadd rs k r)
        [(ex_key, ex_record_b), (ex_key, ex_record_a), (ex_key\<lparr>site := ''MIT_LHCb''\<rparr>, ex_record)] []
     = [(ex_key, Rec \<lparr>mintime = 5, maxtime = 20, walldur = 150, cpudur = 300, nf = 8, njobs = 2\<rparr>),
        (ex_key\<lparr>site := ''MIT_LHCb''\<rparr>, Rec ex_record)]"
proof -
  have m: "mset [ex_record_a, ex_record_b] = mset [ex_record_b, ex_record_a]"
    by (simp add: add.commute)
  have n: "mset [(ex_key, ex_record_a), (ex_key\<lparr>site := ''MIT_LHCb''\<rparr>, ex_record), (ex_key, ex_record_b)]
     = mset [(ex_key, ex_record_b), (ex_key, ex_record_a), (ex_key\<lparr>site := ''MIT_LHCb''\<rparr>, ex_record)]"
    by (simp add: ac_simps)
  have v: "fold (\<lambda>r rs. recs_iadd rs ex_key r) [ex_record_b, ex_record_a] []
     = [(ex_key, Rec \<lparr>mintime = 5, maxtime = 20, walldur = 150, cpudur = 300, nf = 8, njobs = 2\<rparr>)]"
    by (simp add: recs_iadd_def autodict_getitem_def record_adder_def ex_record_a_def
        ex_record_b_def)
  have w: "fold (\<lambda>(k, r) rs. recs_iadd rs k r)
        [(ex_key, ex_record_b), (ex_key, ex_record_a), (ex_key\<lparr>site := ''MIT_LHCb''\<rparr>, ex_record)] []
     = [(ex_key, Rec \<lparr>mintime = 5, maxtime = 20, walldur = 150, cpudur = 300, nf = 8, njobs = 2\<rparr>),
        (ex_key\<lparr>site := ''MIT_LHCb''\<rparr>, Rec ex_record)]"
    by (simp add: recs_iadd_def autodict_getitem_def record_adder_def ex_record_a_def
        ex_record_b_def ex_key_def)
  from m n v w record_adder_assoc_commute
    [of _ _ _ "[ex_record_a, ex_record_b]" "[ex_record_b, ex_record_a]" ex_key "[]"
        "[(ex_key, ex_record_a), (ex_key\<lparr>site := ''MIT_LHCb''\<rparr>, ex_record), (ex_key, ex_record_b)]"
        "[(ex_key, ex_record_b), (ex_key, ex_record_a), (ex_key\<lparr>site := ''MIT_LHCb''\<rparr>, ex_record)]"]
  show ?thesis by blast
qed

text \<open>
  C7. If two records each satisfy the Record invariant (earliest end time at most the
  latest one, durations and job count non-negative), so does their merge.
\<close>

theorem record_adder_invariant:
  assumes "record_invariant a" and "record_invariant b"
  shows "record_invariant (record_adder a b)
     \<and> min (mintime a) (mintime b) \<le> max (maxtime a) (maxtime b)
     \<and> 0 \<le> walldur a + walldur b \<and> 0 \<le> cpudur a + cpudur b \<and> 0 \<le> njobs a + njobs b"
  using assms by (auto simp: record_invariant_def record_adder_def)

theorem record_adder_invariant_witness:
  "record_invariant ex_record_a \<and> record_invariant ex_record_b
   \<and> record_adder ex_record_a ex_record_b
       = \<lparr>mintime = 5, maxtime = 20, walldur = 150, cpudur = 300, nf = 8, njobs = 2\<rparr>
   \<and> record_invariant (record_adder ex_record_a ex_record_b)"
proof -
  have a: "record_invariant ex_record_a"
    by (simp add: record_invariant_def ex_record_a_def)
  have b: "record_invariant ex_record_b"
    by (simp add: record_invariant_def ex_record_b_def)
  have v: "record_adder ex_record_a ex_record_b
       = \<lparr>mintime = 5, maxtime = 20, walldur = 150, cpudur = 300, nf = 8, njobs = 2\<rparr>"
    by (simp add: record_adder_def ex_record_a_def ex_record_b_def)
  show ?thesis
    using a b v record_adder_invariant [OF a b] by blast
qed

text \<open>
  C9. The empty accumulator that the default factory makes for a missing key returns
  the other operand of an addition. So adding a record under a key that the
  accumulator map does not have stores exactly that record and leaves the other keys
  as they are, and a leaf whose key is new ends up stored as its own record.
\<close>

theorem autodict_add_identity:
  assumes "map_of rs rk = None"
  shows "accum_add Autodict r = Rec r
     \<and> map_of (recs_iadd rs rk r) rk = Some (Rec r)
     \<and> (\<forall>k. k \<noteq> rk \<longrightarrow> map_of (recs_iadd rs rk r) k = map_of rs k)
     \<and> (rk = \<lparr>vo = vo',
              site = (case site_vo_map (case site_map site' of Some s \<Rightarrow> s | None \<Rightarrow> site', vo') of
                        Some s \<Rightarrow> s
                      | None \<Rightarrow> (case site_map site' of Some s \<Rightarrow> s | None \<Rightarrow> site')),
              cores = cores', dn = dn'\<rparr> \<longrightarrow>
          map_of (add_record nf_table rs vo' site' cores' dn' bkt) rk
            = Some (Rec (bkt_record nf_table bkt (site rk))))"
proof -
  have one: "map_of (recs_iadd rs rk' r') rk' = Some (Rec r')" if "map_of rs rk' = None" for rk' r'
    using that by (simp add: recs_iadd_update AList.update_conv')
  have other: "map_of (recs_iadd rs rk r) k = map_of rs k" if "k \<noteq> rk" for k
    using that by (simp add: recs_iadd_update AList.update_conv')
  have leaf: "map_of (add_record nf_table rs vo' site' cores' dn' bkt) rk
            = Some (Rec (bkt_record nf_table bkt (site rk)))"
    if "rk = \<lparr>vo = vo',
              site = (case site_vo_map (case site_map site' of Some s \<Rightarrow> s | None \<Rightarrow> site', vo') of
                        Some s \<Rightarrow> s
                      | None \<Rightarrow> (case site_map site' of Some s \<Rightarrow> s | None \<Rightarrow> site')),
              cores = cores', dn = dn'\<rparr>"
    using assms one [of rk] unfolding that add_record_def Let_def by simp
  show ?thesis using one [OF assms] other leaf by simp
qed

text \<open>A single leaf of the site Crane, which the site table renames to Nebraska.\<close>

theorem autodict_add_identity_witness:
  "map_of ([] :: recs) ex_key = None
   \<and> add_record Map.empty [] ''cms'' ''Crane'' 8 ''N/A'' ex_bucket = [(ex_key, Rec ex_record)]
   \<and> map_of (add_record Map.empty [] ''cms'' ''Crane'' 8 ''N/A'' ex_bucket) ex_key
       = Some (Rec (bkt_record Map.empty ex_bucket (site ex_key)))"
proof -
  have e: "map_of ([] :: recs) ex_key = None"
    by simp
  have k: "ex_key = \<lparr>vo = ''cms'',
              site = (case site_vo_map (case site_map ''Crane'' of Some s \<Rightarrow> s | None \<Rightarrow> ''Crane'', ''cms'') of
                        Some s \<Rightarrow> s
                      | None \<Rightarrow> (case site_map ''Crane'' of Some s \<Rightarrow> s | None \<Rightarrow> ''Crane'')),
              cores = 8, dn = ''N/A''\<rparr>"
    by (simp add: ex_key_def site_map_def site_vo_map_def)
  have v: "add_record Map.empty [] ''cms'' ''Crane'' 8 ''N/A'' ex_bucket = [(ex_key, Rec ex_record)]"
    by (simp add: add_record_def recs_iadd_def autodict_getitem_def bkt_record_def
        norm_factor_def py_int_def ex_bucket_def ex_key_def ex_record_def site_map_def
        site_vo_map_def)
  from autodict_add_identity [OF e, of ex_record "''cms''" "''Crane''" 8 "''N/A''" Map.empty ex_bucket] k
  have "map_of (add_record Map.empty [] ''cms'' ''Crane'' 8 ''N/A'' ex_bucket) ex_key
       = Some (Rec (bkt_record Map.empty ex_bucket (site ex_key)))"
    by blast
  with e v show ?thesis by blast
qed

section \<open>The normalization factor\<close>



section \<open>The report emitter\<close>

text \<open>
  C10. The test \<^verbatim>\<open>isclose(hs23_portion, 0.0)\<close> with the default tolerances holds if and
  only if the portion is exactly 0. So a record whose site has any portion other than
  0, however small, is written as two blocks, and as one block exactly when the portion
  is 0.
\<close>

theorem isclose_zero_exact:
  assumes "get_hs23_portion resp cache (site rk) = Inr (p, cache')"
  shows "(isclose p 0.0 \<longleftrightarrow> p = 0)
     \<and> (\<exists>ls. print_rk_recr resp cache year month rk rec = Inr (ls, cache')
            \<and> length ls = (if p = 0 then 17 else 34)
            \<and> length (filter (\<lambda>l. l = [PStr fixed_separator]) ls) = (if p = 0 then 1 else 2))"
  using print_rk_recr_lines [OF assms, of year month rec]
  by (simp add: isclose_0_iff filter_separator_write_lines length_write_lines)

text \<open>A site whose portion is one part in a million millions is written as two blocks.\<close>

theorem isclose_zero_exact_witness:
  "get_hs23_portion (ex_response (1 / 10 ^ 12)) None (site ex_key)
     = Inr (1 / 10 ^ 12, Some [(''Nebraska'', 1 / 10 ^ 12)])
   \<and> \<not> isclose (1 / 10 ^ 12) 0.0
   \<and> map_sum id (\<lambda>r. length (filter (\<lambda>l. l = [PStr fixed_separator]) (fst r)))
        (print_rk_recr (ex_response (1 / 10 ^ 12)) None 2024 5 ex_key ex_record) = Inr 2"
proof -
  have g: "get_hs23_portion (ex_response (1 / 10 ^ 12)) None (site ex_key)
     = Inr (1 / 10 ^ 12, Some [(''Nebraska'', 1 / 10 ^ 12)])"
    by (simp add: get_hs23_portion_def ex_response_def ex_key_def mean_def)
  show ?thesis
    using g isclose_zero_exact [OF g, of 2024 5 ex_record]
    by auto
qed



text \<open>
  C5. Every \<^verbatim>\<open>LatestEndTime\<close> line that the emitter writes for a merged record carries
  the record's \<open>maxtime\<close> plus 86399, and each written block of seventeen lines has
  exactly one such line.
\<close>

theorem latest_end_time_end_of_day:
  assumes "print_rk_recr resp cache year month rk rec = Inr (ls, cache')"
  shows "ls \<noteq> []
     \<and> (\<forall>l \<in> set ls. hd l = PStr ''LatestEndTime:'' \<longrightarrow>
           l = [PStr ''LatestEndTime:'', PInt (maxtime rec + 86399)])
     \<and> 17 * length (filter (\<lambda>l. hd l = PStr ''LatestEndTime:'') ls) = length ls"
proof -
  obtain p where g: "get_hs23_portion resp cache (site rk) = Inr (p, cache')"
    using print_rk_recr_InrD [OF assms] by blast
  have f: "filter (\<lambda>l. hd l = PStr ''LatestEndTime:'') ls
             = (if p = 0 then [[PStr ''LatestEndTime:'', PInt (maxtime rec + 86399)]]
                else [[PStr ''LatestEndTime:'', PInt (maxtime rec + 86399)],
                      [PStr ''LatestEndTime:'', PInt (maxtime rec + 86399)]])"
    using print_rk_recr_lines [OF g, of year month rec] assms
    by (auto simp: filter_latest_write_lines)
  have n: "length ls = (if p = 0 then 17 else 34)"
    using print_rk_recr_lines [OF g, of year month rec] assms
    by (auto simp: length_write_lines)
  have "l = [PStr ''LatestEndTime:'', PInt (maxtime rec + 86399)]"
    if "l \<in> set ls" and "hd l = PStr ''LatestEndTime:''" for l
  proof -
    from that have "l \<in> set (filter (\<lambda>l. hd l = PStr ''LatestEndTime:'') ls)"
      by simp
    then show ?thesis
      unfolding f by (simp split: if_splits)
  qed
  moreover have "ls \<noteq> []"
    using n by (auto split: if_splits)
  moreover have "17 * length (filter (\<lambda>l. hd l = PStr ''LatestEndTime:'') ls) = length ls"
    unfolding f n by simp
  ultimately show ?thesis by blast
qed

text \<open>A record with the latest end time 1700000000, written as two blocks.\<close>

theorem latest_end_time_end_of_day_witness:
  "print_rk_recr (ex_response 0.4) None 2024 5 ex_key ex_record
       = Inr (write_lines 2024 5 ex_key ex_record ''generic cms user'' ''hepspec-hosts'' 0.6 ''hepspec''
              @ write_lines 2024 5 ex_key ex_record ''generic cms user'' ''hepscore-hosts'' 0.4
                  ''HEPscore23'',
              Some [(''Nebraska'', 0.4)])
   \<and> filter (\<lambda>l. hd l = PStr ''LatestEndTime:'')
        (write_lines 2024 5 ex_key ex_record ''generic cms user'' ''hepspec-hosts'' 0.6 ''hepspec''
         @ write_lines 2024 5 ex_key ex_record ''generic cms user'' ''hepscore-hosts'' 0.4
             ''HEPscore23'')
       = [[PStr ''LatestEndTime:'', PInt 1700086399], [PStr ''LatestEndTime:'', PInt 1700086399]]
   \<and> list_all (\<lambda>l. hd l \<noteq> PStr ''LatestEndTime:'' \<or> l = [PStr ''LatestEndTime:'', PInt 1700086399])
        (write_lines 2024 5 ex_key ex_record ''generic cms user'' ''hepspec-hosts'' 0.6 ''hepspec''
         @ write_lines 2024 5 ex_key ex_record ''generic cms user'' ''hepscore-hosts'' 0.4
             ''HEPscore23'')"
proof -
  have g: "get_hs23_portion (ex_response 0.4) None (site ex_key)
             = Inr (0.4, Some [(''Nebraska'', 0.4)])"
    by (simp add: get_hs23_portion_def ex_response_def ex_key_def mean_def)
  have p: "print_rk_recr (ex_response 0.4) None 2024 5 ex_key ex_record
       = Inr (write_lines 2024 5 ex_key ex_record ''generic cms user'' ''hepspec-hosts'' 0.6 ''hepspec''
              @ write_lines 2024 5 ex_key ex_record ''generic cms user'' ''hepscore-hosts'' 0.4
                  ''HEPscore23'',
              Some [(''Nebraska'', 0.4)])"
    using print_rk_recr_lines [OF g, of 2024 5 ex_record] by (simp add: ex_key_def)
  have f: "filter (\<lambda>l. hd l = PStr ''LatestEndTime:'')
        (write_lines 2024 5 ex_key ex_record ''generic cms user'' ''hepspec-hosts'' 0.6 ''hepspec''
         @ write_lines 2024 5 ex_key ex_record ''generic cms user'' ''hepscore-hosts'' 0.4
             ''HEPscore23'')
       = [[PStr ''LatestEndTime:'', PInt 1700086399], [PStr ''LatestEndTime:'', PInt 1700086399]]"
    by (simp add: filter_latest_write_lines ex_record_def)
  have m: "maxtime ex_record + 86399 = 1700086399"
    by (simp add: ex_record_def)
  from latest_end_time_end_of_day [OF p] m
  have "\<forall>l \<in> set (write_lines 2024 5 ex_key ex_record ''generic cms user'' ''hepspec-hosts'' 0.6 ''hepspec''
         @ write_lines 2024 5 ex_key ex_record ''generic cms user'' ''hepscore-hosts'' 0.4
             ''HEPscore23'').
          hd l \<noteq> PStr ''LatestEndTime:'' \<or> l = [PStr ''LatestEndTime:'', PInt 1700086399]"
    by auto
  then have "list_all (\<lambda>l. hd l \<noteq> PStr ''LatestEndTime:'' \<or> l = [PStr ''LatestEndTime:'', PInt 1700086399])
        (write_lines 2024 5 ex_key ex_record ''generic cms user'' ''hepspec-hosts'' 0.6 ''hepspec''
         @ write_lines 2024 5 ex_key ex_record ''generic cms user'' ''hepscore-hosts'' 0.4
             ''HEPscore23'')"
    unfolding list_all_iff .
  with p f show ?thesis by blast
qed



section \<open>The HS23 portion\<close>

text \<open>
  C1, as the specification states it, fails: a resource group whose only percentage is
  40, on the scale from 0 to 100, has the portion 40, which is not in the unit interval,
  and the emitter uses it as it is, with the portions \<open>1 - 40 = -39\<close> and 40; nothing
  divides by 100.
\<close>

theorem get_hs23_portion_unit_interval_counterexample:
  "get_hs23_portion
      \<lparr>status_code = 200,
       json = [(''Nebraska'', [\<lparr>WLCGInformation = [(''HEPScore23Percentage'', 40)]\<rparr>])]\<rparr>
      None ''Nebraska''
     = Inr (40, Some [(''Nebraska'', 40)])
   \<and> \<not> (40 :: real) \<le> 1
   \<and> print_rk_recr
        \<lparr>status_code = 200,
         json = [(''Nebraska'', [\<lparr>WLCGInformation = [(''HEPScore23Percentage'', 40)]\<rparr>])]\<rparr>
        None 2024 5 \<lparr>vo = ''cms'', site = ''Nebraska'', cores = 8, dn = ''N/A''\<rparr>
        \<lparr>mintime = 1700000000, maxtime = 1700000000, walldur = 3600, cpudur = 3600,
         nf = 10, njobs = 1\<rparr>
     = Inr (write_lines 2024 5 \<lparr>vo = ''cms'', site = ''Nebraska'', cores = 8, dn = ''N/A''\<rparr>
              \<lparr>mintime = 1700000000, maxtime = 1700000000, walldur = 3600, cpudur = 3600,
               nf = 10, njobs = 1\<rparr>
              ''generic cms user'' ''hepspec-hosts'' (- 39) ''hepspec''
            @ write_lines 2024 5 \<lparr>vo = ''cms'', site = ''Nebraska'', cores = 8, dn = ''N/A''\<rparr>
              \<lparr>mintime = 1700000000, maxtime = 1700000000, walldur = 3600, cpudur = 3600,
               nf = 10, njobs = 1\<rparr>
              ''generic cms user'' ''hepscore-hosts'' 40 ''HEPscore23'',
            Some [(''Nebraska'', 40)])
   \<and> write_lines 2024 5 \<lparr>vo = ''cms'', site = ''Nebraska'', cores = 8, dn = ''N/A''\<rparr>
        \<lparr>mintime = 1700000000, maxtime = 1700000000, walldur = 3600, cpudur = 3600,
         nf = 10, njobs = 1\<rparr>
        ''generic cms user'' ''hepspec-hosts'' (- 39) ''hepspec'' ! 11
     = [PStr ''WallDuration:'', PInt (- 140400)]"
proof -
  have g: "get_hs23_portion
      \<lparr>status_code = 200,
       json = [(''Nebraska'', [\<lparr>WLCGInformation = [(''HEPScore23Percentage'', 40)]\<rparr>])]\<rparr>
      None (site \<lparr>vo = ''cms'', site = ''Nebraska'', cores = 8, dn = ''N/A''\<rparr>)
     = Inr (40, Some [(''Nebraska'', 40)])"
    by (simp add: get_hs23_portion_def mean_def)
  have w: "write_lines 2024 5 \<lparr>vo = ''cms'', site = ''Nebraska'', cores = 8, dn = ''N/A''\<rparr>
        \<lparr>mintime = 1700000000, maxtime = 1700000000, walldur = 3600, cpudur = 3600,
         nf = 10, njobs = 1\<rparr>
        ''generic cms user'' ''hepspec-hosts'' (- 39) ''hepspec'' ! 11
     = [PStr ''WallDuration:'', PInt (- 140400)]"
    by (simp add: write_lines_def py_int_def)
  show ?thesis
    using g w print_rk_recr_lines [OF g, of 2024 5]
    by simp
qed

text \<open>
  C1, amended. After a fetch with the status 200, \<open>get_hs23_portion\<close> returns for every
  resource-group name the arithmetic mean of the percentage values that the resources
  of the group carry, as they are: neither the function nor its call site divides by
  100. A group without a percentage value and a name that the fetched document does not
  have give 0. The result is in the unit interval when every percentage value of the
  document is. The map built by the first call is the state of every later call, which
  only looks the name up.
\<close>

theorem get_hs23_portion_mean:
  assumes "status_code resp = 200"
  shows "get_hs23_portion resp None g
       = Inr (case map_of (rev (json resp)) g of
                None \<Rightarrow> 0
              | Some rs \<Rightarrow>
                  if hep_spec_percentages rs = [] then 0
                  else sum_list (hep_spec_percentages rs) / real (length (hep_spec_percentages rs)),
              Some (parse_resource_groups (json resp) []))
     \<and> get_hs23_portion resp' (Some (parse_resource_groups (json resp) [])) g
       = get_hs23_portion resp None g
     \<and> ((\<forall>(n, rs) \<in> set (json resp). \<forall>x \<in> set (hep_spec_percentages rs). 0 \<le> x \<and> x \<le> 1) \<longrightarrow>
          (\<exists>v c. get_hs23_portion resp None g = Inr (v, c) \<and> 0 \<le> v \<and> v \<le> 1))"
proof -
  let ?m = "parse_resource_groups (json resp) []"
  let ?v = "case map_of (rev (json resp)) g of
                None \<Rightarrow> 0
              | Some rs \<Rightarrow>
                  if hep_spec_percentages rs = [] then 0
                  else sum_list (hep_spec_percentages rs) / real (length (hep_spec_percentages rs))"
  have look: "(case map_of ?m g of None \<Rightarrow> 0.0 | Some v \<Rightarrow> v) = ?v"
    by (simp add: map_of_parse_resource_groups mean_def split: option.splits)
  have first: "get_hs23_portion resp None g = Inr (?v, Some ?m)"
    using assms look by (simp add: get_hs23_portion_def Let_def)
  have later: "get_hs23_portion resp' (Some ?m) g = get_hs23_portion resp None g"
    unfolding first using look by (simp add: get_hs23_portion_def)
  have range: "0 \<le> ?v \<and> ?v \<le> 1"
    if all: "\<forall>(n, rs) \<in> set (json resp). \<forall>x \<in> set (hep_spec_percentages rs). 0 \<le> x \<and> x \<le> 1"
  proof (cases "map_of (rev (json resp)) g")
    case None
    then show ?thesis by simp
  next
    case (Some rs)
    then have "(g, rs) \<in> set (json resp)"
      using map_of_SomeD [of "rev (json resp)" g rs] by simp
    with all have u: "\<forall>x \<in> set (hep_spec_percentages rs). 0 \<le> x \<and> x \<le> 1"
      by auto
    show ?thesis
    proof (cases "hep_spec_percentages rs = []")
      case True
      then show ?thesis by (simp add: Some)
    next
      case False
      then show ?thesis
        using mean_unit_interval [OF u False] by (simp add: Some mean_def)
    qed
  qed
  show ?thesis
    using first later range by auto
qed

text \<open>
  A document with the group Nebraska, whose resources carry 0.25, none and 0.75, and the
  group Crane without a value; the name MIT is not in the document.
\<close>

theorem get_hs23_portion_mean_witness:
  "status_code \<lparr>status_code = 200,
       json = [(''Nebraska'', [\<lparr>WLCGInformation = [(''HEPScore23Percentage'', 0.25)]\<rparr>,
                              \<lparr>WLCGInformation = [(''HEPSPEC'', 85)]\<rparr>,
                              \<lparr>WLCGInformation = [(''HEPScore23Percentage'', 0.75)]\<rparr>]),
               (''Crane'', [\<lparr>WLCGInformation = []\<rparr>])]\<rparr> = 200
   \<and> get_hs23_portion \<lparr>status_code = 200,
       json = [(''Nebraska'', [\<lparr>WLCGInformation = [(''HEPScore23Percentage'', 0.25)]\<rparr>,
                              \<lparr>WLCGInformation = [(''HEPSPEC'', 85)]\<rparr>,
                              \<lparr>WLCGInformation = [(''HEPScore23Percentage'', 0.75)]\<rparr>]),
               (''Crane'', [\<lparr>WLCGInformation = []\<rparr>])]\<rparr> None ''Nebraska''
       = Inr (0.5, Some [(''Nebraska'', 0.5), (''Crane'', 0)])
   \<and> get_hs23_portion \<lparr>status_code = 200,
       json = [(''Nebraska'', [\<lparr>WLCGInformation = [(''HEPScore23Percentage'', 0.25)]\<rparr>,
                              \<lparr>WLCGInformation = [(''HEPSPEC'', 85)]\<rparr>,
                              \<lparr>WLCGInformation = [(''HEPScore23Percentage'', 0.75)]\<rparr>]),
               (''Crane'', [\<lparr>WLCGInformation = []\<rparr>])]\<rparr> None ''Crane''
       = Inr (0, Some [(''Nebraska'', 0.5), (''Crane'', 0)])
   \<and> get_hs23_portion \<lparr>status_code = 200,
       json = [(''Nebraska'', [\<lparr>WLCGInformation = [(''HEPScore23Percentage'', 0.25)]\<rparr>,
                              \<lparr>WLCGInformation = [(''HEPSPEC'', 85)]\<rparr>,
                              \<lparr>WLCGInformation = [(''HEPScore23Percentage'', 0.75)]\<rparr>]),
               (''Crane'', [\<lparr>WLCGInformation = []\<rparr>])]\<rparr> None ''MIT''
       = Inr (0, Some [(''Nebraska'', 0.5), (''Crane'', 0)])
   \<and> list_all (\<lambda>x. 0 \<le> x \<and> x \<le> 1)
        (hep_spec_percentages [\<lparr>WLCGInformation = [(''HEPScore23Percentage'', 0.25)]\<rparr>,
                               \<lparr>WLCGInformation = [(''HEPSPEC'', 85)]\<rparr>,
                               \<lparr>WLCGInformation = [(''HEPScore23Percentage'', 0.75)]\<rparr>])
   \<and> (\<exists>v c. get_hs23_portion \<lparr>status_code = 200,
       json = [(''Nebraska'', [\<lparr>WLCGInformation = [(''HEPScore23Percentage'', 0.25)]\<rparr>,
                              \<lparr>WLCGInformation = [(''HEPSPEC'', 85)]\<rparr>,
                              \<lparr>WLCGInformation = [(''HEPScore23Percentage'', 0.75)]\<rparr>]),
               (''Crane'', [\<lparr>WLCGInformation = []\<rparr>])]\<rparr> None ''Nebraska'' = Inr (v, c)
          \<and> 0 \<le> v \<and> v \<le> 1)"
proof -
  let ?resp = "\<lparr>status_code = 200,
       json = [(''Nebraska'', [\<lparr>WLCGInformation = [(''HEPScore23Percentage'', 0.25)]\<rparr>,
                              \<lparr>WLCGInformation = [(''HEPSPEC'', 85)]\<rparr>,
                              \<lparr>WLCGInformation = [(''HEPScore23Percentage'', 0.75)]\<rparr>]),
               (''Crane'', [\<lparr>WLCGInformation = []\<rparr>])]\<rparr>"
  have s: "status_code ?resp = 200"
    by simp
  have m: "parse_resource_groups (json ?resp) [] = [(''Nebraska'', 0.5), (''Crane'', 0)]"
    by (simp add: mean_def)
  have u: "\<forall>(n, rs) \<in> set (json ?resp). \<forall>x \<in> set (hep_spec_percentages rs). 0 \<le> x \<and> x \<le> 1"
    by simp
  have r: "\<exists>v c. get_hs23_portion ?resp None ''Nebraska'' = Inr (v, c) \<and> 0 \<le> v \<and> v \<le> 1"
    using get_hs23_portion_mean [OF s, of "''Nebraska''"] u by blast
  have l: "list_all (\<lambda>x. 0 \<le> x \<and> x \<le> 1)
        (hep_spec_percentages [\<lparr>WLCGInformation = [(''HEPScore23Percentage'', 0.25)]\<rparr>,
                               \<lparr>WLCGInformation = [(''HEPSPEC'', 85)]\<rparr>,
                               \<lparr>WLCGInformation = [(''HEPScore23Percentage'', 0.75)]\<rparr>])"
    by simp
  have v: "get_hs23_portion ?resp None ''Nebraska'' = Inr (0.5, Some [(''Nebraska'', 0.5), (''Crane'', 0)])
    \<and> get_hs23_portion ?resp None ''Crane'' = Inr (0, Some [(''Nebraska'', 0.5), (''Crane'', 0)])
    \<and> get_hs23_portion ?resp None ''MIT'' = Inr (0, Some [(''Nebraska'', 0.5), (''Crane'', 0)])"
    using get_hs23_portion_mean [OF s, of "''Nebraska''"]
      get_hs23_portion_mean [OF s, of "''Crane''"]
      get_hs23_portion_mean [OF s, of "''MIT''"]
    unfolding m by simp
  show ?thesis
    using s v l r by blast
qed

section \<open>The command line\<close>

text \<open>
  C8. For every argument list that is not empty and is not exactly two tokens that
  \<^verbatim>\<open>int\<close> parses, \<open>main\<close> writes the usage line to the error stream and exits with
  the status 0; it writes no report.
\<close>

theorem main_usage_exit_zero:
  assumes "args \<noteq> []"
    and "\<not> (\<exists>a b y m. args = [a, b] \<and> parse_int a = Some y \<and> parse_int b = Some m)"
  shows "main parse_int today script gracc_query_apel nf_table resp args
           = Exit 0 [''usage: '' @ script @ '' [YEAR MONTH]'']"
proof -
  have "unpack_year_month parse_int args = None"
    using assms(2) by (auto simp: unpack_year_month_def split: list.splits option.splits)
  then show ?thesis
    using assms(1) by (simp add: main_def)
qed

text \<open>A month that is not a numeral, one argument, and three arguments.\<close>

theorem main_usage_exit_zero_witness:
  "main parse_decimal (2024, 5, 17) ''apel_report.py'' (\<lambda>y m. Inr []) Map.empty (ex_response 0.4)
     [''2024'', ''May'']
     = Exit 0 [''usage: apel_report.py [YEAR MONTH]'']
   \<and> main parse_decimal (2024, 5, 17) ''apel_report.py'' (\<lambda>y m. Inr []) Map.empty (ex_response 0.4)
     [''2024'']
     = Exit 0 [''usage: apel_report.py [YEAR MONTH]'']
   \<and> main parse_decimal (2024, 5, 17) ''apel_report.py'' (\<lambda>y m. Inr []) Map.empty (ex_response 0.4)
     [''2024'', ''5'', ''1'']
     = Exit 0 [''usage: apel_report.py [YEAR MONTH]'']"
proof -
  have a: "\<not> (\<exists>a b y m. [''2024'', ''May''] = [a, b] \<and> parse_decimal a = Some y
              \<and> parse_decimal b = Some m)"
    by (simp add: parse_decimal_def)
  have b: "\<not> (\<exists>a b y m. [''2024''] = [a, b] \<and> parse_decimal a = Some y
              \<and> parse_decimal b = Some m)"
    by simp
  have c: "\<not> (\<exists>a b y m. [''2024'', ''5'', ''1''] = [a, b] \<and> parse_decimal a = Some y
              \<and> parse_decimal b = Some m)"
    by simp
  show ?thesis
    using main_usage_exit_zero [OF _ a, of "(2024, 5, 17)" "''apel_report.py''" "\<lambda>y m. Inr []"
        Map.empty "ex_response 0.4"]
      main_usage_exit_zero [OF _ b, of "(2024, 5, 17)" "''apel_report.py''" "\<lambda>y m. Inr []"
        Map.empty "ex_response 0.4"]
      main_usage_exit_zero [OF _ c, of "(2024, 5, 17)" "''apel_report.py''" "\<lambda>y m. Inr []"
        Map.empty "ex_response 0.4"]
    by simp
qed

end
